theory Spec2Isabelle
  imports Main "HOL-Library.AList"
begin

section \<open>Values, errors and the remote client\<close>

text \<open>
  The manager of \<^verbatim>\<open>SoftLayer/managers/cdn.py\<close> forwards Python values to a remote
  client and hands back what the client answers. The values it can see are the JSON-like
  ones: \<^verbatim>\<open>None\<close>, booleans, integers, strings, lists and dictionaries with string keys.
  A dictionary is an association list, in insertion order.
\<close>

datatype pyval =
    PNone
  | PBool bool
  | PInt int
  | PStr string
  | PList "pyval list"
  | PDict "(string \<times> pyval) list"

text \<open>Every \<^verbatim>\<open>raise\<close> of the source, and every exception of the interpreter or of the
  client that can pass through it, is a value.\<close>

datatype error =
    SoftLayerError string
  | ValueError string
  | TypeError
  | IndexError
  | KeyError
  | RemoteFault string

text \<open>Python's truth test, as used by \<^verbatim>\<open>if header:\<close> and \<^verbatim>\<open>bool(start_date)\<close>.\<close>

fun truthy :: "pyval \<Rightarrow> bool" where
  "truthy PNone = False"
| "truthy (PBool b) = b"
| "truthy (PInt i) = (i \<noteq> 0)"
| "truthy (PStr s) = (s \<noteq> [])"
| "truthy (PList xs) = (xs \<noteq> [])"
| "truthy (PDict d) = (d \<noteq> [])"

text \<open>Indexing a sequence by an integer: a negative index counts from the end, and an
  index outside the sequence raises \<^verbatim>\<open>IndexError\<close>.\<close>

definition seq_index :: "'a list \<Rightarrow> int \<Rightarrow> error + 'a" where
  "seq_index xs i =
     (let n = int (length xs); j = (if i < 0 then i + n else i)
      in if j < 0 \<or> n \<le> j then Inl IndexError else Inr (xs ! nat j))"

text \<open>The subscript \<^verbatim>\<open>v[k]\<close>. A list or a string takes an integer (a boolean is an
  integer) and rejects anything else with \<^verbatim>\<open>TypeError\<close>; a dictionary looks the key
  up, an unhashable key is a \<^verbatim>\<open>TypeError\<close>, a key that is not there a
  \<^verbatim>\<open>KeyError\<close>; the other values are not subscriptable.\<close>

fun getitem :: "pyval \<Rightarrow> pyval \<Rightarrow> error + pyval" where
  "getitem (PList xs) (PInt i) = seq_index xs i"
| "getitem (PList xs) (PBool b) = seq_index xs (if b then 1 else 0)"
| "getitem (PList xs) k = Inl TypeError"
| "getitem (PStr s) (PInt i) = map_sum id (\<lambda>c. PStr [c]) (seq_index s i)"
| "getitem (PStr s) (PBool b) = map_sum id (\<lambda>c. PStr [c]) (seq_index s (if b then 1 else 0))"
| "getitem (PStr s) k = Inl TypeError"
| "getitem (PDict d) (PStr k) = (case map_of d k of None \<Rightarrow> Inl KeyError | Some v \<Rightarrow> Inr v)"
| "getitem (PDict d) (PList k) = Inl TypeError"
| "getitem (PDict d) (PDict k) = Inl TypeError"
| "getitem (PDict d) k = Inl KeyError"
| "getitem v k = Inl TypeError"

text \<open>A remote call names the service handle, the method, the positional arguments and
  the keyword options (mask, limit and the like).\<close>

datatype call =
  Call (service_of: string) (method_of: string) (args_of: "pyval list")
    (kwargs_of: "(string \<times> pyval) list")

text \<open>A naive date and time, as \<^verbatim>\<open>datetime\<close> holds it: microseconds counted from a
  fixed origin of the calendar.\<close>

type_synonym datetime = int

text \<open>What the manager is given and does not define: the client (its answer to a call,
  or the error it raises), \<^verbatim>\<open>datetime.strptime\<close> of the standard library (value and
  format), \<^verbatim>\<open>utils.timestamp\<close>, and the wall clock (its successive readings).\<close>

record env =
  remote :: "call \<Rightarrow> error + pyval"
  strptime :: "pyval \<Rightarrow> string \<Rightarrow> error + datetime"
  timestamp :: "datetime \<Rightarrow> int"
  clock :: "nat \<Rightarrow> datetime"

text \<open>The output table of \<^verbatim>\<open>formatting.Table\<close>: its column names and its rows.\<close>

record table =
  columns :: "string list"
  rows :: "pyval list list"

text \<open>What a call leaves behind: how often the clock was read, the remote calls made
  (oldest first) and the tables written to the output.\<close>

record world =
  ticks :: nat
  calls :: "call list"
  out :: "table list"

definition invoke :: "env \<Rightarrow> call \<Rightarrow> world \<Rightarrow> (error + pyval) \<times> world" where
  "invoke e c w = (remote e c, w\<lparr>calls := calls w @ [c]\<rparr>)"

section \<open>The CDN manager\<close>

text \<open>The four service handles of \<^verbatim>\<open>CDNManager.__init__\<close>.\<close>

definition cdn_configuration :: string where
  "cdn_configuration = ''Network_CdnMarketplace_Configuration_Mapping''"

definition cdn_path :: string where
  "cdn_path = ''SoftLayer_Network_CdnMarketplace_Configuration_Mapping_Path''"

definition cdn_metrics :: string where
  "cdn_metrics = ''Network_CdnMarketplace_Metrics''"

definition cdn_purge :: string where
  "cdn_purge = ''SoftLayer_Network_CdnMarketplace_Configuration_Cache_Purge''"

text \<open>\<^verbatim>\<open>get_cdn(self, unique_id, **kwargs)\<close>\<close>

definition get_cdn ::
  "env \<Rightarrow> pyval \<Rightarrow> (string \<times> pyval) list \<Rightarrow> world \<Rightarrow> (error + pyval) \<times> world" where
  "get_cdn e unique_id kw w =
     (case invoke e (Call cdn_configuration ''listDomainMappingByUniqueId'' [unique_id] kw) w of
        (Inl err, w') \<Rightarrow> (Inl err, w')
      | (Inr cdn_list, w') \<Rightarrow> (getitem cdn_list (PInt 0), w'))"

text \<open>An optional parameter of a Python signature: the argument when it is passed,
  the default of the signature when it is omitted.\<close>

definition arg_or :: "'a option \<Rightarrow> 'a \<Rightarrow> 'a" where
  "arg_or a d = (case a of None \<Rightarrow> d | Some v \<Rightarrow> v)"

text \<open>\<^verbatim>\<open>list_cdn(self, **kwargs)\<close> and \<^verbatim>\<open>get_origins(self, unique_id, **kwargs)\<close>\<close>

definition list_cdn :: "env \<Rightarrow> (string \<times> pyval) list \<Rightarrow> world \<Rightarrow> (error + pyval) \<times> world" where
  "list_cdn e kw w = invoke e (Call cdn_configuration ''listDomainMappings'' [] kw) w"

definition get_origins ::
  "env \<Rightarrow> pyval \<Rightarrow> (string \<times> pyval) list \<Rightarrow> world \<Rightarrow> (error + pyval) \<times> world" where
  "get_origins e unique_id kw w = invoke e (Call cdn_path ''listOriginPath'' [unique_id] kw) w"

text \<open>\<^verbatim>\<open>add_origin(self, unique_id, path, origin_address, origin_type="HOST_SERVER",
  header=None, port=80, protocol='HTTP', bucket_name=None, file_extensions=None,
  optimize_for="General web delivery", cache_query="include all")\<close>.
  The dictionary \<^verbatim>\<open>new_origin\<close> is built first; the one remote call comes after the
  checks, and the exception raised for a missing bucket name leaves before it.\<close>

definition add_origin ::
  "env \<Rightarrow> pyval \<Rightarrow> pyval \<Rightarrow> pyval \<Rightarrow> pyval option \<Rightarrow> pyval option \<Rightarrow> pyval option \<Rightarrow>
   pyval option \<Rightarrow> pyval option \<Rightarrow> pyval option \<Rightarrow> pyval option \<Rightarrow> pyval option \<Rightarrow>
   world \<Rightarrow> (error + pyval) \<times> world" where
  "add_origin e unique_id path origin_address origin_type_arg header_arg port_arg protocol_arg
     bucket_name_arg file_extensions_arg optimize_for_arg cache_query_arg w =
     (let origin_type = arg_or origin_type_arg (PStr ''HOST_SERVER'');
          header = arg_or header_arg PNone;
          port = arg_or port_arg (PInt 80);
          protocol = arg_or protocol_arg (PStr ''HTTP'');
          bucket_name = arg_or bucket_name_arg PNone;
          file_extensions = arg_or file_extensions_arg PNone;
          optimize_for = arg_or optimize_for_arg (PStr ''General web delivery'');
          cache_query = arg_or cache_query_arg (PStr ''include all'');
          new_origin0 =
            [(''uniqueId'', unique_id),
             (''path'', path),
             (''origin'', origin_address),
             (''originType'', origin_type),
             (''httpPort'', port),
             (''protocol'', protocol),
             (''performanceConfiguration'', optimize_for),
             (''cacheKeyQueryRule'', cache_query)];
          new_origin1 =
            (if truthy header then AList.update ''header'' header new_origin0 else new_origin0);
          checked =
            (if origin_type = PStr ''OBJECT_STORAGE'' then
               (if truthy bucket_name then
                  (let new_origin2 = AList.update ''bucketName'' bucket_name new_origin1
                   in Inr (if truthy file_extensions
                           then AList.update ''fileExtension'' file_extensions new_origin2
                           else new_origin2))
                else Inl (SoftLayerError
                       ''Bucket name is required when the origin type is OBJECT_STORAGE''))
             else Inr new_origin1)
      in case checked of
           Inl err \<Rightarrow> (Inl err, w)
         | Inr new_origin \<Rightarrow>
             (case invoke e (Call cdn_path ''createOriginPath'' [PDict new_origin] []) w of
                (Inl err, w') \<Rightarrow> (Inl err, w')
              | (Inr origin, w') \<Rightarrow> (getitem origin (PInt 0), w')))"

text \<open>\<^verbatim>\<open>remove_origin(self, unique_id, path)\<close> and \<^verbatim>\<open>purge_content(self, unique_id, path)\<close>\<close>

definition remove_origin :: "env \<Rightarrow> pyval \<Rightarrow> pyval \<Rightarrow> world \<Rightarrow> (error + pyval) \<times> world" where
  "remove_origin e unique_id path w =
     invoke e (Call cdn_path ''deleteOriginPath'' [unique_id, path] []) w"

definition purge_content :: "env \<Rightarrow> pyval \<Rightarrow> pyval \<Rightarrow> world \<Rightarrow> (error + pyval) \<times> world" where
  "purge_content e unique_id path w =
     invoke e (Call cdn_purge ''createPurge'' [unique_id, path] []) w"

text \<open>Modelled from the spec: \<^verbatim>\<open>utils.days_to_datetime\<close> is not among the sources.
  The spec has the default window as \<open>[now - days, now]\<close>, computed from the current
  wall-clock time at call time: the helper reads the clock once and goes back the given
  number of days.\<close>

definition microseconds_per_day :: int where
  "microseconds_per_day = 86400000000"

definition days_to_datetime :: "env \<Rightarrow> int \<Rightarrow> world \<Rightarrow> datetime \<times> world" where
  "days_to_datetime e days w =
     (clock e (ticks w) - days * microseconds_per_day, w\<lparr>ticks := Suc (ticks w)\<rparr>)"

definition date_format :: string where
  "date_format = ''%Y-%m-%d %H:%M:%S''"

text \<open>\<^verbatim>\<open>get_usage_metrics(self, unique_id, start_date=None, end_date=None, days=30,
  frequency="aggregate")\<close>. Both defaults of the window are computed before the dates
  are looked at; \<^verbatim>\<open>except ValueError: raise\<close> re-raises what \<^verbatim>\<open>strptime\<close> raised,
  and any other exception of it passes as well.\<close>

definition get_usage_metrics ::
  "env \<Rightarrow> pyval \<Rightarrow> pyval option \<Rightarrow> pyval option \<Rightarrow> int option \<Rightarrow> pyval option \<Rightarrow>
   world \<Rightarrow> (error + pyval) \<times> world" where
  "get_usage_metrics e unique_id start_date_arg end_date_arg days_arg frequency_arg w =
     (let start_date = arg_or start_date_arg PNone;
          end_date = arg_or end_date_arg PNone;
          days = arg_or days_arg 30;
          frequency = arg_or frequency_arg (PStr ''aggregate'');
          (start0, w1) = days_to_datetime e days w;
          (end0, w2) = days_to_datetime e 0 w1;
          window =
            (if truthy start_date \<and> truthy end_date then
               (case strptime e start_date date_format of
                  Inl err \<Rightarrow> Inl err
                | Inr start1 \<Rightarrow>
                    (case strptime e end_date date_format of
                       Inl err \<Rightarrow> Inl err
                     | Inr end1 \<Rightarrow> Inr (start1, end1)))
             else if truthy start_date \<noteq> truthy end_date then
               Inl (ValueError ''start_date or end_date is None, both need to be strings or None.'')
             else Inr (start0, end0))
      in case window of
           Inl err \<Rightarrow> (Inl err, w2)
         | Inr (start, end) \<Rightarrow>
             (let start_ts = timestamp e start;
                  end_ts = timestamp e end
              in case invoke e (Call cdn_metrics ''getMappingUsageMetrics''
                                  [unique_id, PInt start_ts, PInt end_ts, frequency] []) w2 of
                   (Inl err, w') \<Rightarrow> (Inl err, w')
                 | (Inr usage, w') \<Rightarrow> (getitem usage (PInt 0), w')))"

section \<open>The purge command\<close>

text \<open>Modelled from the spec: \<^verbatim>\<open>formatting.Table\<close> and \<^verbatim>\<open>env.fout\<close> are not among the
  sources. The spec has a table of fixed columns to which rows are added, written to the
  configured output.\<close>

definition Table :: "string list \<Rightarrow> table" where
  "Table cols = \<lparr>columns = cols, rows = []\<rparr>"

definition add_row :: "table \<Rightarrow> pyval list \<Rightarrow> table" where
  "add_row t r = t\<lparr>rows := rows t @ [r]\<rparr>"

definition fout :: "table \<Rightarrow> world \<Rightarrow> world" where
  "fout t w = w\<lparr>out := out w @ [t]\<rparr>"

text \<open>\<^verbatim>\<open>cli(env, unique_id, path)\<close> of \<^verbatim>\<open>SoftLayer/CLI/cdn/purge.py\<close>. Both arguments
  are strings of the command line. The four subscripts of \<^verbatim>\<open>result\<close> are evaluated in
  order, and the first that raises ends the command before anything is written.\<close>

definition cli :: "env \<Rightarrow> string \<Rightarrow> string \<Rightarrow> world \<Rightarrow> (error + unit) \<times> world" where
  "cli e unique_id path w =
     (case purge_content e (PStr unique_id) (PStr path) w of
        (Inl err, w') \<Rightarrow> (Inl err, w')
      | (Inr result, w') \<Rightarrow>
          (let t = Table [''Date'', ''Path'', ''Saved'', ''Status'']
           in case getitem result (PStr ''date'') of
                Inl err \<Rightarrow> (Inl err, w')
              | Inr c1 \<Rightarrow>
             (case getitem result (PStr ''path'') of
                Inl err \<Rightarrow> (Inl err, w')
              | Inr c2 \<Rightarrow>
             (case getitem result (PStr ''saved'') of
                Inl err \<Rightarrow> (Inl err, w')
              | Inr c3 \<Rightarrow>
             (case getitem result (PStr ''status'') of
                Inl err \<Rightarrow> (Inl err, w')
              | Inr c4 \<Rightarrow> (Inr (), fout (add_row t [c1, c2, c3, c4]) w'))))))"

section \<open>A fixture\<close>

text \<open>A client, a parser and a clock to run the operations on. The client answers
  \<^verbatim>\<open>createPurge\<close> with one purge record in a list, \<^verbatim>\<open>deleteOriginPath\<close> with a string
  and every other call with one mapping in a list. The parser knows the two dates of
  the examples, as microseconds from the epoch, and rejects everything else. The clock
  starts at 2021-02-01 00:00:00 and moves one microsecond with each reading.\<close>

definition purge_record :: pyval where
  "purge_record =
     PDict [(''date'', PStr ''2021-02-01T00:00:00''),
            (''path'', PStr ''/article/file.txt''),
            (''saved'', PStr ''UNSAVED''),
            (''status'', PStr ''SUCCESS'')]"

definition fixture_env :: env where
  "fixture_env =
     \<lparr>remote = (\<lambda>c.
        if method_of c = ''createPurge'' then Inr (PList [purge_record])
        else if method_of c = ''deleteOriginPath'' then Inr (PStr ''deleted'')
        else Inr (PList [PDict [(''uniqueId'', PStr ''9779455'')]])),
      strptime = (\<lambda>v f.
        if f = ''%Y-%m-%d %H:%M:%S'' \<and> v = PStr ''2021-01-01 00:00:00'' then Inr 1609459200000000
        else if f = ''%Y-%m-%d %H:%M:%S'' \<and> v = PStr ''2021-01-02 00:00:00'' then Inr 1609545600000000
        else Inl (ValueError ''time data does not match format'')),
      timestamp = (\<lambda>d. d div 1000000),
      clock = (\<lambda>n. 1612137600000000 + int n)\<rparr>"

definition world0 :: world where
  "world0 = \<lparr>ticks = 0, calls = [], out = []\<rparr>"

section \<open>Properties\<close>

lemma seq_index_0_Cons: "seq_index (x # xs) 0 = Inr x"
  by (simp add: seq_index_def Let_def)

lemma seq_index_0_Nil: "seq_index [] 0 = Inl IndexError"
  by (simp add: seq_index_def)

subsection \<open>What each path of \<^verbatim>\<open>add_origin\<close> and \<^verbatim>\<open>get_usage_metrics\<close> computes\<close>

lemma add_origin_no_bucket:
  "arg_or ot (PStr ''HOST_SERVER'') = PStr ''OBJECT_STORAGE'' \<Longrightarrow> \<not> truthy (arg_or b PNone) \<Longrightarrow>
   add_origin e uid p oa ot h po pr b f ofo cq w =
     (Inl (SoftLayerError ''Bucket name is required when the origin type is OBJECT_STORAGE''), w)"
  by (simp add: add_origin_def Let_def)

text \<open>No key is assigned twice, so each assignment appends to the dictionary.\<close>

lemma add_origin_closed:
  assumes "\<not> (arg_or ot (PStr ''HOST_SERVER'') = PStr ''OBJECT_STORAGE'' \<and> \<not> truthy (arg_or b PNone))"
  shows "add_origin e uid p oa ot h po pr b f ofo cq w =
     (let c = Call cdn_path ''createOriginPath''
                [PDict ([(''uniqueId'', uid),
                         (''path'', p),
                         (''origin'', oa),
                         (''originType'', arg_or ot (PStr ''HOST_SERVER'')),
                         (''httpPort'', arg_or po (PInt 80)),
                         (''protocol'', arg_or pr (PStr ''HTTP'')),
                         (''performanceConfiguration'', arg_or ofo (PStr ''General web delivery'')),
                         (''cacheKeyQueryRule'', arg_or cq (PStr ''include all''))]
                        @ (if truthy (arg_or h PNone) then [(''header'', arg_or h PNone)] else [])
                        @ (if arg_or ot (PStr ''HOST_SERVER'') = PStr ''OBJECT_STORAGE''
                           then (''bucketName'', arg_or b PNone)
                                # (if truthy (arg_or f PNone) then [(''fileExtension'', arg_or f PNone)] else [])
                           else []))] []
      in case remote e c of
           Inl err \<Rightarrow> (Inl err, w\<lparr>calls := calls w @ [c]\<rparr>)
         | Inr origin \<Rightarrow> (getitem origin (PInt 0), w\<lparr>calls := calls w @ [c]\<rparr>))"
proof (cases "truthy (arg_or h PNone)"; cases "arg_or ot (PStr ''HOST_SERVER'') = PStr ''OBJECT_STORAGE''";
       cases "truthy (arg_or f PNone)")
qed (use assms in \<open>simp_all add: add_origin_def Let_def invoke_def\<close>)

lemma get_usage_metrics_default:
  assumes "\<not> truthy (arg_or sd PNone)" "\<not> truthy (arg_or ed PNone)"
  shows "get_usage_metrics e uid sd ed days freq w =
     (let c = Call cdn_metrics ''getMappingUsageMetrics''
                [uid,
                 PInt (timestamp e (clock e (ticks w) - arg_or days 30 * microseconds_per_day)),
                 PInt (timestamp e (clock e (Suc (ticks w)))),
                 arg_or freq (PStr ''aggregate'')] [];
          w' = w\<lparr>ticks := Suc (Suc (ticks w)), calls := calls w @ [c]\<rparr>
      in case remote e c of
           Inl err \<Rightarrow> (Inl err, w')
         | Inr usage \<Rightarrow> (getitem usage (PInt 0), w'))"
  using assms
  by (simp add: get_usage_metrics_def days_to_datetime_def Let_def invoke_def)

lemma get_usage_metrics_mismatch:
  assumes "truthy (arg_or sd PNone) \<noteq> truthy (arg_or ed PNone)"
  shows "get_usage_metrics e uid sd ed days freq w =
     (Inl (ValueError ''start_date or end_date is None, both need to be strings or None.''),
      w\<lparr>ticks := Suc (Suc (ticks w))\<rparr>)"
proof (cases "truthy (arg_or sd PNone)")
  case True
  with assms show ?thesis
    by (simp add: get_usage_metrics_def days_to_datetime_def Let_def)
next
  case False
  with assms show ?thesis
    by (simp add: get_usage_metrics_def days_to_datetime_def Let_def)
qed

lemma get_usage_metrics_parsed:
  assumes "truthy (arg_or sd PNone)" "truthy (arg_or ed PNone)"
    and "strptime e (arg_or sd PNone) date_format = Inr s"
    and "strptime e (arg_or ed PNone) date_format = Inr en"
  shows "get_usage_metrics e uid sd ed days freq w =
     (let c = Call cdn_metrics ''getMappingUsageMetrics''
                [uid, PInt (timestamp e s), PInt (timestamp e en),
                 arg_or freq (PStr ''aggregate'')] [];
          w' = w\<lparr>ticks := Suc (Suc (ticks w)), calls := calls w @ [c]\<rparr>
      in case remote e c of
           Inl err \<Rightarrow> (Inl err, w')
         | Inr usage \<Rightarrow> (getitem usage (PInt 0), w'))"
  using assms
  by (simp add: get_usage_metrics_def days_to_datetime_def Let_def invoke_def)

lemma get_usage_metrics_start_unparsed:
  assumes "truthy (arg_or sd PNone)" "truthy (arg_or ed PNone)"
    and "strptime e (arg_or sd PNone) date_format = Inl err"
  shows "get_usage_metrics e uid sd ed days freq w = (Inl err, w\<lparr>ticks := Suc (Suc (ticks w))\<rparr>)"
  using assms
  by (simp add: get_usage_metrics_def days_to_datetime_def Let_def)

lemma get_usage_metrics_end_unparsed:
  assumes "truthy (arg_or sd PNone)" "truthy (arg_or ed PNone)"
    and "strptime e (arg_or sd PNone) date_format = Inr s"
    and "strptime e (arg_or ed PNone) date_format = Inl err"
  shows "get_usage_metrics e uid sd ed days freq w = (Inl err, w\<lparr>ticks := Suc (Suc (ticks w))\<rparr>)"
  using assms
  by (simp add: get_usage_metrics_def days_to_datetime_def Let_def)

subsection \<open>The claims\<close>

text \<open>
  C8. \<^verbatim>\<open>get_cdn\<close> makes the one lookup call; when the client answers with a non-empty
  collection the result is its first element, and when it answers with the empty
  collection the call fails with \<^verbatim>\<open>IndexError\<close>, which reaches the caller.
\<close>

theorem get_cdn_first_or_index_error:
  "(remote e (Call cdn_configuration ''listDomainMappingByUniqueId'' [unique_id] kw) = Inr (PList (x # xs))
      \<longrightarrow> fst (get_cdn e unique_id kw w) = Inr x)
   \<and> (remote e (Call cdn_configuration ''listDomainMappingByUniqueId'' [unique_id] kw) = Inr (PList [])
      \<longrightarrow> fst (get_cdn e unique_id kw w) = Inl IndexError)
   \<and> calls (snd (get_cdn e unique_id kw w)) =
       calls w @ [Call cdn_configuration ''listDomainMappingByUniqueId'' [unique_id] kw]"
  by (cases "remote e (Call cdn_configuration ''listDomainMappingByUniqueId'' [unique_id] kw)")
     (simp_all add: get_cdn_def invoke_def seq_index_0_Cons seq_index_0_Nil)

theorem get_cdn_first_or_index_error_witness:
  "remote fixture_env (Call cdn_configuration ''listDomainMappingByUniqueId'' [PInt 9779455] []) =
     Inr (PList [PDict [(''uniqueId'', PStr ''9779455'')]])
   \<and> fst (get_cdn fixture_env (PInt 9779455) [] world0) = Inr (PDict [(''uniqueId'', PStr ''9779455'')])
   \<and> remote (fixture_env\<lparr>remote := \<lambda>c. Inr (PList [])\<rparr>)
        (Call cdn_configuration ''listDomainMappingByUniqueId'' [PInt 9779455] []) = Inr (PList [])
   \<and> fst (get_cdn (fixture_env\<lparr>remote := \<lambda>c. Inr (PList [])\<rparr>) (PInt 9779455) [] world0) = Inl IndexError"
  using get_cdn_first_or_index_error [of fixture_env "PInt 9779455" "[]"
          "PDict [(''uniqueId'', PStr ''9779455'')]" "[]" world0]
        get_cdn_first_or_index_error [of "fixture_env\<lparr>remote := \<lambda>c. Inr (PList [])\<rparr>" "PInt 9779455" "[]"
          _ _ world0]
  by (simp add: fixture_env_def)

text \<open>
  C1. When \<^verbatim>\<open>origin_type\<close> is \<^verbatim>\<open>'OBJECT_STORAGE'\<close> and \<^verbatim>\<open>bucket_name\<close> is omitted or
  falsy, \<^verbatim>\<open>add_origin\<close> raises \<^verbatim>\<open>SoftLayerError\<close> with the message "Bucket name is
  required when the origin type is OBJECT_STORAGE" and leaves the world as it was: no
  remote call is made, whatever the other arguments are.
\<close>

theorem add_origin_object_storage_requires_bucket:
  "\<not> truthy (arg_or bucket_name PNone) \<Longrightarrow>
   add_origin e unique_id path origin_address (Some (PStr ''OBJECT_STORAGE'')) header port protocol
     bucket_name file_extensions optimize_for cache_query w =
     (Inl (SoftLayerError ''Bucket name is required when the origin type is OBJECT_STORAGE''), w)"
  by (rule add_origin_no_bucket) (simp_all add: arg_or_def)

theorem add_origin_object_storage_requires_bucket_witness:
  "\<not> truthy (arg_or None PNone) \<and> \<not> truthy (arg_or (Some (PStr '''')) PNone)
   \<and> add_origin fixture_env (PInt 9779455) (PStr ''/example'') (PStr ''10.10.10.1'')
       (Some (PStr ''OBJECT_STORAGE'')) None None None None (Some (PStr ''jpg'')) None None world0 =
     (Inl (SoftLayerError ''Bucket name is required when the origin type is OBJECT_STORAGE''), world0)
   \<and> add_origin fixture_env (PInt 9779455) (PStr ''/example'') (PStr ''10.10.10.1'')
       (Some (PStr ''OBJECT_STORAGE'')) None None None (Some (PStr '''')) None None None world0 =
     (Inl (SoftLayerError ''Bucket name is required when the origin type is OBJECT_STORAGE''), world0)
   \<and> calls world0 = []"
  using add_origin_object_storage_requires_bucket [of None fixture_env "PInt 9779455" "PStr ''/example''"
          "PStr ''10.10.10.1''" None None None "Some (PStr ''jpg'')" None None world0]
        add_origin_object_storage_requires_bucket [of "Some (PStr '''')" fixture_env "PInt 9779455"
          "PStr ''/example''" "PStr ''10.10.10.1''" None None None None None None world0]
  by (simp add: arg_or_def world0_def)

text \<open>
  C3. When exactly one of \<^verbatim>\<open>start_date\<close> and \<^verbatim>\<open>end_date\<close> is truthy (the other omitted,
  \<^verbatim>\<open>None\<close> or otherwise falsy), \<^verbatim>\<open>get_usage_metrics\<close> raises \<^verbatim>\<open>ValueError\<close> with the
  message "start_date or end_date is None, both need to be strings or None." and has
  made no remote call.
\<close>

theorem get_usage_metrics_one_date_only:
  "truthy (arg_or start_date PNone) \<noteq> truthy (arg_or end_date PNone) \<Longrightarrow>
   fst (get_usage_metrics e unique_id start_date end_date days frequency w) =
     Inl (ValueError ''start_date or end_date is None, both need to be strings or None.'')
   \<and> calls (snd (get_usage_metrics e unique_id start_date end_date days frequency w)) = calls w"
  by (simp add: get_usage_metrics_mismatch)

theorem get_usage_metrics_one_date_only_witness:
  "truthy (arg_or (Some (PStr ''2021-01-01 00:00:00'')) PNone) \<noteq> truthy (arg_or None PNone)
   \<and> fst (get_usage_metrics fixture_env (PInt 9779455) (Some (PStr ''2021-01-01 00:00:00'')) None None None world0) =
     Inl (ValueError ''start_date or end_date is None, both need to be strings or None.'')
   \<and> calls (snd (get_usage_metrics fixture_env (PInt 9779455) (Some (PStr ''2021-01-01 00:00:00'')) None None None world0)) = []"
  using get_usage_metrics_one_date_only [of "Some (PStr ''2021-01-01 00:00:00'')" None fixture_env
          "PInt 9779455" None None world0]
  by (simp add: arg_or_def world0_def)

text \<open>
  C4. When both \<^verbatim>\<open>start_date\<close> and \<^verbatim>\<open>end_date\<close> are passed and truthy, each is parsed
  with the format \<^verbatim>\<open>"%Y-%m-%d %H:%M:%S"\<close>. When both parse, the one remote call carries
  \<^verbatim>\<open>utils.timestamp\<close> of the two parsed values as its second and third argument. When
  the first does not parse, or the first does and the second does not, the result is the
  very error that \<^verbatim>\<open>strptime\<close> raised, and no remote call is made.
\<close>

theorem get_usage_metrics_parses_both_dates:
  assumes "truthy start_date" and "truthy end_date"
  shows "(strptime e start_date ''%Y-%m-%d %H:%M:%S'' = Inr s \<and>
          strptime e end_date ''%Y-%m-%d %H:%M:%S'' = Inr en \<longrightarrow>
            calls (snd (get_usage_metrics e unique_id (Some start_date) (Some end_date) days frequency w)) =
              calls w @ [Call cdn_metrics ''getMappingUsageMetrics''
                           [unique_id, PInt (timestamp e s), PInt (timestamp e en),
                            arg_or frequency (PStr ''aggregate'')] []])
       \<and> (strptime e start_date ''%Y-%m-%d %H:%M:%S'' = Inl err \<longrightarrow>
            fst (get_usage_metrics e unique_id (Some start_date) (Some end_date) days frequency w) = Inl err
            \<and> calls (snd (get_usage_metrics e unique_id (Some start_date) (Some end_date) days frequency w)) =
                calls w)
       \<and> (strptime e start_date ''%Y-%m-%d %H:%M:%S'' = Inr s \<and>
          strptime e end_date ''%Y-%m-%d %H:%M:%S'' = Inl err \<longrightarrow>
            fst (get_usage_metrics e unique_id (Some start_date) (Some end_date) days frequency w) = Inl err
            \<and> calls (snd (get_usage_metrics e unique_id (Some start_date) (Some end_date) days frequency w)) =
                calls w)"
proof -
  have t: "truthy (arg_or (Some start_date) PNone)" "truthy (arg_or (Some end_date) PNone)"
    using assms by (simp_all add: arg_or_def)
  have a: "arg_or (Some start_date) PNone = start_date" "arg_or (Some end_date) PNone = end_date"
    by (simp_all add: arg_or_def)
  have f: "date_format = ''%Y-%m-%d %H:%M:%S''"
    by (simp add: date_format_def)
  show ?thesis
  proof (intro conjI impI)
    assume "strptime e start_date ''%Y-%m-%d %H:%M:%S'' = Inr s \<and>
            strptime e end_date ''%Y-%m-%d %H:%M:%S'' = Inr en"
    then show "calls (snd (get_usage_metrics e unique_id (Some start_date) (Some end_date) days frequency w)) =
              calls w @ [Call cdn_metrics ''getMappingUsageMetrics''
                           [unique_id, PInt (timestamp e s), PInt (timestamp e en),
                            arg_or frequency (PStr ''aggregate'')] []]"
      using get_usage_metrics_parsed [OF t, of e s en unique_id days frequency w]
      by (simp add: a f Let_def split: sum.splits)
  next
    assume p: "strptime e start_date ''%Y-%m-%d %H:%M:%S'' = Inl err"
    show "fst (get_usage_metrics e unique_id (Some start_date) (Some end_date) days frequency w) = Inl err"
      using get_usage_metrics_start_unparsed [OF t, of e err unique_id days frequency w] p
      by (simp add: a f)
    show "calls (snd (get_usage_metrics e unique_id (Some start_date) (Some end_date) days frequency w)) =
            calls w"
      using get_usage_metrics_start_unparsed [OF t, of e err unique_id days frequency w] p
      by (simp add: a f)
  next
    assume p: "strptime e start_date ''%Y-%m-%d %H:%M:%S'' = Inr s \<and>
               strptime e end_date ''%Y-%m-%d %H:%M:%S'' = Inl err"
    show "fst (get_usage_metrics e unique_id (Some start_date) (Some end_date) days frequency w) = Inl err"
      using get_usage_metrics_end_unparsed [OF t, of e s err unique_id days frequency w] p
      by (simp add: a f)
    show "calls (snd (get_usage_metrics e unique_id (Some start_date) (Some end_date) days frequency w)) =
            calls w"
      using get_usage_metrics_end_unparsed [OF t, of e s err unique_id days frequency w] p
      by (simp add: a f)
  qed
qed

theorem get_usage_metrics_parses_both_dates_witness:
  "truthy (PStr ''2021-01-01 00:00:00'') \<and> truthy (PStr ''2021-01-02 00:00:00'') \<and> truthy (PStr ''yesterday'')
   \<and> strptime fixture_env (PStr ''2021-01-01 00:00:00'') ''%Y-%m-%d %H:%M:%S'' = Inr 1609459200000000
   \<and> strptime fixture_env (PStr ''2021-01-02 00:00:00'') ''%Y-%m-%d %H:%M:%S'' = Inr 1609545600000000
   \<and> strptime fixture_env (PStr ''yesterday'') ''%Y-%m-%d %H:%M:%S'' =
        Inl (ValueError ''time data does not match format'')
   \<and> calls (snd (get_usage_metrics fixture_env (PInt 9779455) (Some (PStr ''2021-01-01 00:00:00''))
             (Some (PStr ''2021-01-02 00:00:00'')) None None world0)) =
        [Call cdn_metrics ''getMappingUsageMetrics''
           [PInt 9779455, PInt 1609459200, PInt 1609545600, PStr ''aggregate''] []]
   \<and> fst (get_usage_metrics fixture_env (PInt 9779455) (Some (PStr ''yesterday''))
             (Some (PStr ''2021-01-02 00:00:00'')) None None world0) =
        Inl (ValueError ''time data does not match format'')
   \<and> calls (snd (get_usage_metrics fixture_env (PInt 9779455) (Some (PStr ''yesterday''))
             (Some (PStr ''2021-01-02 00:00:00'')) None None world0)) = []
   \<and> fst (get_usage_metrics fixture_env (PInt 9779455) (Some (PStr ''2021-01-01 00:00:00''))
             (Some (PStr ''yesterday'')) None None world0) =
        Inl (ValueError ''time data does not match format'')
   \<and> calls (snd (get_usage_metrics fixture_env (PInt 9779455) (Some (PStr ''2021-01-01 00:00:00''))
             (Some (PStr ''yesterday'')) None None world0)) = []"
proof -
  have p1: "strptime fixture_env (PStr ''2021-01-01 00:00:00'') ''%Y-%m-%d %H:%M:%S'' = Inr 1609459200000000"
    by (simp add: fixture_env_def)
  have p2: "strptime fixture_env (PStr ''2021-01-02 00:00:00'') ''%Y-%m-%d %H:%M:%S'' = Inr 1609545600000000"
    by (simp add: fixture_env_def)
  have p3: "strptime fixture_env (PStr ''yesterday'') ''%Y-%m-%d %H:%M:%S'' =
        Inl (ValueError ''time data does not match format'')"
    by (simp add: fixture_env_def)
  have ts: "timestamp fixture_env 1609459200000000 = 1609459200"
    "timestamp fixture_env 1609545600000000 = 1609545600"
    by (simp_all add: fixture_env_def)
  have w: "calls world0 = []"
    by (simp add: world0_def)
  have t: "truthy (PStr ''2021-01-01 00:00:00'')" "truthy (PStr ''2021-01-02 00:00:00'')"
    "truthy (PStr ''yesterday'')"
    by simp_all
  note ok = get_usage_metrics_parses_both_dates [OF t(1) t(2), where e = fixture_env and
      unique_id = "PInt 9779455" and days = None and frequency = None and w = world0 and
      s = 1609459200000000 and en = 1609545600000000]
  note bad1 = get_usage_metrics_parses_both_dates [OF t(3) t(2), where e = fixture_env and
      unique_id = "PInt 9779455" and days = None and frequency = None and w = world0 and
      err = "ValueError ''time data does not match format''"]
  note bad2 = get_usage_metrics_parses_both_dates [OF t(1) t(3), where e = fixture_env and
      unique_id = "PInt 9779455" and days = None and frequency = None and w = world0 and
      s = 1609459200000000 and err = "ValueError ''time data does not match format''"]
  show ?thesis
    using ok bad1 bad2
    by (simp add: p1 p2 p3 ts w t arg_or_def)
qed



text \<open>
  C10. The dates are told apart by their truth value. With both dates the empty string
  the call does what it does with both omitted, whatever the parser is (it is not
  asked), and makes the remote call for the default window; with one date the empty
  string and the other a non-empty string it raises the \<^verbatim>\<open>ValueError\<close> "start_date or
  end_date is None, both need to be strings or None."
\<close>

theorem get_usage_metrics_truthiness:
  "get_usage_metrics (e\<lparr>strptime := parse\<rparr>) unique_id (Some (PStr '''')) (Some (PStr '''')) days frequency w =
     get_usage_metrics e unique_id None None days frequency w
   \<and> calls (snd (get_usage_metrics e unique_id (Some (PStr '''')) (Some (PStr '''')) days frequency w)) =
       calls w @ [Call cdn_metrics ''getMappingUsageMetrics''
                    [unique_id,
                     PInt (timestamp e (clock e (ticks w) - arg_or days 30 * microseconds_per_day)),
                     PInt (timestamp e (clock e (Suc (ticks w)))),
                     arg_or frequency (PStr ''aggregate'')] []]
   \<and> (s \<noteq> '''' \<longrightarrow>
        get_usage_metrics e unique_id (Some (PStr s)) (Some (PStr '''')) days frequency w =
          (Inl (ValueError ''start_date or end_date is None, both need to be strings or None.''),
           w\<lparr>ticks := Suc (Suc (ticks w))\<rparr>)
      \<and> get_usage_metrics e unique_id (Some (PStr '''')) (Some (PStr s)) days frequency w =
          (Inl (ValueError ''start_date or end_date is None, both need to be strings or None.''),
           w\<lparr>ticks := Suc (Suc (ticks w))\<rparr>))"
proof (intro conjI impI)
  have n: "\<not> truthy (arg_or (Some (PStr '''')) PNone)" "\<not> truthy (arg_or None PNone)"
    by (simp_all add: arg_or_def)
  show "get_usage_metrics (e\<lparr>strptime := parse\<rparr>) unique_id (Some (PStr '''')) (Some (PStr '''')) days frequency w =
     get_usage_metrics e unique_id None None days frequency w"
    by (simp add: get_usage_metrics_default [OF n(1) n(1)] get_usage_metrics_default [OF n(2) n(2)])
  show "calls (snd (get_usage_metrics e unique_id (Some (PStr '''')) (Some (PStr '''')) days frequency w)) =
       calls w @ [Call cdn_metrics ''getMappingUsageMetrics''
                    [unique_id,
                     PInt (timestamp e (clock e (ticks w) - arg_or days 30 * microseconds_per_day)),
                     PInt (timestamp e (clock e (Suc (ticks w)))),
                     arg_or frequency (PStr ''aggregate'')] []]"
    by (simp add: get_usage_metrics_default [OF n(1) n(1)] Let_def split: sum.splits)
next
  assume s: "s \<noteq> ''''"
  then have "truthy (arg_or (Some (PStr s)) PNone) \<noteq> truthy (arg_or (Some (PStr '''')) PNone)"
    by (simp add: arg_or_def)
  then show "get_usage_metrics e unique_id (Some (PStr s)) (Some (PStr '''')) days frequency w =
          (Inl (ValueError ''start_date or end_date is None, both need to be strings or None.''),
           w\<lparr>ticks := Suc (Suc (ticks w))\<rparr>)"
    by (rule get_usage_metrics_mismatch)
  from s have "truthy (arg_or (Some (PStr '''')) PNone) \<noteq> truthy (arg_or (Some (PStr s)) PNone)"
    by (simp add: arg_or_def)
  then show "get_usage_metrics e unique_id (Some (PStr '''')) (Some (PStr s)) days frequency w =
          (Inl (ValueError ''start_date or end_date is None, both need to be strings or None.''),
           w\<lparr>ticks := Suc (Suc (ticks w))\<rparr>)"
    by (rule get_usage_metrics_mismatch)
qed

theorem get_usage_metrics_truthiness_witness:
  "''2021-01-01 00:00:00'' \<noteq> ''''
   \<and> get_usage_metrics (fixture_env\<lparr>strptime := \<lambda>v f. Inr 0\<rparr>) (PInt 9779455) (Some (PStr ''''))
         (Some (PStr '''')) None None world0 =
       get_usage_metrics fixture_env (PInt 9779455) None None None None world0
   \<and> calls (snd (get_usage_metrics fixture_env (PInt 9779455) (Some (PStr '''')) (Some (PStr ''''))
              None None world0)) =
       [Call cdn_metrics ''getMappingUsageMetrics''
          [PInt 9779455, PInt 1609545600, PInt 1612137600, PStr ''aggregate''] []]
   \<and> fst (get_usage_metrics fixture_env (PInt 9779455) (Some (PStr '''')) (Some (PStr ''''))
              None None world0) = Inr (PDict [(''uniqueId'', PStr ''9779455'')])
   \<and> fst (get_usage_metrics fixture_env (PInt 9779455) (Some (PStr ''2021-01-01 00:00:00''))
              (Some (PStr '''')) None None world0) =
       Inl (ValueError ''start_date or end_date is None, both need to be strings or None.'')
   \<and> fst (get_usage_metrics fixture_env (PInt 9779455) (Some (PStr ''''))
              (Some (PStr ''2021-01-01 00:00:00'')) None None world0) =
       Inl (ValueError ''start_date or end_date is None, both need to be strings or None.'')"
proof -
  have n: "\<not> truthy (arg_or (Some (PStr '''')) PNone)"
    by (simp add: arg_or_def)
  have c: "clock fixture_env (ticks world0) = 1612137600000000"
    "clock fixture_env (Suc (ticks world0)) = 1612137600000001"
    by (simp_all add: fixture_env_def world0_def)
  have ts: "timestamp fixture_env (1612137600000000 - 30 * microseconds_per_day) = 1609545600"
    "timestamp fixture_env 1612137600000001 = 1612137600"
    by (simp_all add: fixture_env_def microseconds_per_day_def)
  have w: "calls world0 = []"
    by (simp add: world0_def)
  have r: "fst (get_usage_metrics fixture_env (PInt 9779455) (Some (PStr '''')) (Some (PStr ''''))
              None None world0) = Inr (PDict [(''uniqueId'', PStr ''9779455'')])"
    by (simp add: get_usage_metrics_default [OF n n] Let_def fixture_env_def seq_index_0_Cons)
  show ?thesis
    using get_usage_metrics_truthiness [where e = fixture_env and unique_id = "PInt 9779455"
        and days = None and frequency = None and w = world0 and s = "''2021-01-01 00:00:00''"
        and parse = "strptime fixture_env", THEN conjunct2]
      get_usage_metrics_truthiness [where e = fixture_env and unique_id = "PInt 9779455"
        and days = None and frequency = None and w = world0 and s = "''2021-01-01 00:00:00''"
        and parse = "\<lambda>v f. Inr 0", THEN conjunct1]
    by (simp add: c ts w r arg_or_def)
qed

text \<open>What \<^verbatim>\<open>add_origin\<close> submits when it does not raise: one \<^verbatim>\<open>createOriginPath\<close> call
  with one dictionary, whose fields are these.\<close>

lemma add_origin_submits:
  assumes "\<not> (arg_or ot (PStr ''HOST_SERVER'') = PStr ''OBJECT_STORAGE'' \<and> \<not> truthy (arg_or b PNone))"
  shows "\<exists>d. calls (snd (add_origin e uid p oa ot h po pr b f ofo cq w)) =
            calls w @ [Call cdn_path ''createOriginPath'' [PDict d] []]
         \<and> map_of d ''originType'' = Some (arg_or ot (PStr ''HOST_SERVER''))
         \<and> map_of d ''httpPort'' = Some (arg_or po (PInt 80))
         \<and> map_of d ''protocol'' = Some (arg_or pr (PStr ''HTTP''))
         \<and> map_of d ''performanceConfiguration'' = Some (arg_or ofo (PStr ''General web delivery''))
         \<and> map_of d ''cacheKeyQueryRule'' = Some (arg_or cq (PStr ''include all''))
         \<and> map_of d ''header'' =
              (if truthy (arg_or h PNone) then Some (arg_or h PNone) else None)
         \<and> map_of d ''bucketName'' =
              (if arg_or ot (PStr ''HOST_SERVER'') = PStr ''OBJECT_STORAGE''
               then Some (arg_or b PNone) else None)
         \<and> map_of d ''fileExtension'' =
              (if arg_or ot (PStr ''HOST_SERVER'') = PStr ''OBJECT_STORAGE'' \<and> truthy (arg_or f PNone)
               then Some (arg_or f PNone) else None)"
proof -
  define d where "d =
    [(''uniqueId'', uid),
     (''path'', p),
     (''origin'', oa),
     (''originType'', arg_or ot (PStr ''HOST_SERVER'')),
     (''httpPort'', arg_or po (PInt 80)),
     (''protocol'', arg_or pr (PStr ''HTTP'')),
     (''performanceConfiguration'', arg_or ofo (PStr ''General web delivery'')),
     (''cacheKeyQueryRule'', arg_or cq (PStr ''include all''))]
    @ (if truthy (arg_or h PNone) then [(''header'', arg_or h PNone)] else [])
    @ (if arg_or ot (PStr ''HOST_SERVER'') = PStr ''OBJECT_STORAGE''
       then (''bucketName'', arg_or b PNone)
            # (if truthy (arg_or f PNone) then [(''fileExtension'', arg_or f PNone)] else [])
       else [])"
  have c: "calls (snd (add_origin e uid p oa ot h po pr b f ofo cq w)) =
            calls w @ [Call cdn_path ''createOriginPath'' [PDict d] []]"
    unfolding add_origin_closed [OF assms] d_def Let_def
    by (cases "remote e (Call cdn_path ''createOriginPath'' [PDict d] [])") (simp_all add: d_def)
  have m: "map_of d ''originType'' = Some (arg_or ot (PStr ''HOST_SERVER''))"
    "map_of d ''httpPort'' = Some (arg_or po (PInt 80))"
    "map_of d ''protocol'' = Some (arg_or pr (PStr ''HTTP''))"
    "map_of d ''performanceConfiguration'' = Some (arg_or ofo (PStr ''General web delivery''))"
    "map_of d ''cacheKeyQueryRule'' = Some (arg_or cq (PStr ''include all''))"
    by (simp_all add: d_def)
  have hd: "map_of d ''header'' = (if truthy (arg_or h PNone) then Some (arg_or h PNone) else None)"
    by (cases "truthy (arg_or h PNone)"; cases "arg_or ot (PStr ''HOST_SERVER'') = PStr ''OBJECT_STORAGE''";
        cases "truthy (arg_or f PNone)") (simp_all add: d_def)
  have bn: "map_of d ''bucketName'' =
              (if arg_or ot (PStr ''HOST_SERVER'') = PStr ''OBJECT_STORAGE''
               then Some (arg_or b PNone) else None)"
    by (cases "truthy (arg_or h PNone)"; cases "arg_or ot (PStr ''HOST_SERVER'') = PStr ''OBJECT_STORAGE''";
        cases "truthy (arg_or f PNone)") (simp_all add: d_def)
  have fe: "map_of d ''fileExtension'' =
              (if arg_or ot (PStr ''HOST_SERVER'') = PStr ''OBJECT_STORAGE'' \<and> truthy (arg_or f PNone)
               then Some (arg_or f PNone) else None)"
    by (cases "truthy (arg_or h PNone)"; cases "arg_or ot (PStr ''HOST_SERVER'') = PStr ''OBJECT_STORAGE''";
        cases "truthy (arg_or f PNone)") (simp_all add: d_def)
  from c m hd bn fe show ?thesis
    by blast
qed

text \<open>What the unwrapping operations return once the remote call has been made: the
  subscript 0 of the client's answer to that very call.\<close>

lemma fst_case_sum_pair:
  "fst (case r of Inl err \<Rightarrow> (Inl err, w') | Inr v \<Rightarrow> (g v, w')) =
     (case r of Inl err \<Rightarrow> Inl err | Inr v \<Rightarrow> g v)"
  by (cases r) simp_all

lemma snd_case_sum_pair:
  "snd (case r of Inl err \<Rightarrow> (f err, w') | Inr v \<Rightarrow> (g v, w')) = w'"
  by (cases r) simp_all

lemma unwrapped_result:
  assumes eq: "res = (case remote e c' of
                        Inl err \<Rightarrow> (Inl err, w\<lparr>ticks := t, calls := calls w @ [c']\<rparr>)
                      | Inr v \<Rightarrow> (getitem v (PInt 0), w\<lparr>ticks := t, calls := calls w @ [c']\<rparr>))"
    and made: "calls (snd res) = calls w @ [c]"
  shows "fst res = (case remote e c of Inl err \<Rightarrow> Inl err | Inr v \<Rightarrow> getitem v (PInt 0))"
proof -
  from made have "c' = c"
    unfolding eq snd_case_sum_pair by simp
  then show ?thesis
    unfolding eq fst_case_sum_pair by simp
qed

lemma add_origin_result:
  assumes "calls (snd (add_origin e uid p oa ot h po pr b f ofo cq w)) = calls w @ [c]"
  shows "fst (add_origin e uid p oa ot h po pr b f ofo cq w) =
           (case remote e c of
              Inl err \<Rightarrow> Inl err
            | Inr origin \<Rightarrow> getitem origin (PInt 0))"
proof (cases "arg_or ot (PStr ''HOST_SERVER'') = PStr ''OBJECT_STORAGE'' \<and> \<not> truthy (arg_or b PNone)")
  case True
  then have "add_origin e uid p oa ot h po pr b f ofo cq w =
     (Inl (SoftLayerError ''Bucket name is required when the origin type is OBJECT_STORAGE''), w)"
    by (simp add: add_origin_no_bucket)
  with assms show ?thesis
    by simp
next
  case False
  have "w\<lparr>calls := cs\<rparr> = w\<lparr>ticks := ticks w, calls := cs\<rparr>" for cs
    by simp
  note eq = add_origin_closed [OF False, of e uid p oa h po pr f ofo cq w, unfolded Let_def this]
  from eq assms show ?thesis
    by (rule unwrapped_result)
qed

lemma get_usage_metrics_result:
  assumes "calls (snd (get_usage_metrics e uid sd ed days freq w)) = calls w @ [c]"
  shows "fst (get_usage_metrics e uid sd ed days freq w) =
           (case remote e c of
              Inl err \<Rightarrow> Inl err
            | Inr usage \<Rightarrow> getitem usage (PInt 0))"
proof (cases "truthy (arg_or sd PNone)"; cases "truthy (arg_or ed PNone)")
  assume t: "truthy (arg_or sd PNone)" "truthy (arg_or ed PNone)"
  show ?thesis
  proof (cases "strptime e (arg_or sd PNone) date_format")
    case (Inl err)
    from assms show ?thesis
      by (simp add: get_usage_metrics_start_unparsed [OF t Inl])
  next
    case s: (Inr s)
    show ?thesis
    proof (cases "strptime e (arg_or ed PNone) date_format")
      case (Inl err)
      from assms show ?thesis
        by (simp add: get_usage_metrics_end_unparsed [OF t s Inl])
    next
      case (Inr en)
      from get_usage_metrics_parsed [OF t s Inr, of uid days freq w, unfolded Let_def] assms
      show ?thesis
        by (rule unwrapped_result)
    qed
  qed
next
  assume "truthy (arg_or sd PNone)" "\<not> truthy (arg_or ed PNone)"
  then have "truthy (arg_or sd PNone) \<noteq> truthy (arg_or ed PNone)"
    by simp
  with assms show ?thesis
    by (simp add: get_usage_metrics_mismatch)
next
  assume "\<not> truthy (arg_or sd PNone)" "truthy (arg_or ed PNone)"
  then have "truthy (arg_or sd PNone) \<noteq> truthy (arg_or ed PNone)"
    by simp
  with assms show ?thesis
    by (simp add: get_usage_metrics_mismatch)
next
  assume f: "\<not> truthy (arg_or sd PNone)" "\<not> truthy (arg_or ed PNone)"
  from get_usage_metrics_default [OF f, of e uid days freq w, unfolded Let_def] assms
  show ?thesis
    by (rule unwrapped_result)
qed

text \<open>
  C7. \<^verbatim>\<open>get_cdn\<close>, \<^verbatim>\<open>add_origin\<close> and \<^verbatim>\<open>get_usage_metrics\<close> each return the first
  element of the collection that the client answers to the call the operation itself
  makes: for \<^verbatim>\<open>get_cdn\<close> the lookup call, for the other two the one call they append
  to the calls made (they make none when they raise before it). \<^verbatim>\<open>purge_content\<close>
  returns whatever \<^verbatim>\<open>createPurge\<close> answers, the whole collection, and
  \<^verbatim>\<open>remove_origin\<close> whatever \<^verbatim>\<open>deleteOriginPath\<close> answers, unchanged.
\<close>

theorem unwrap_first_element_except_purge_and_remove:
  "(remote e (Call cdn_configuration ''listDomainMappingByUniqueId'' [unique_id] kw) =
        Inr (PList (cdn # cdns))
      \<longrightarrow> fst (get_cdn e unique_id kw w) = Inr cdn)
   \<and> (calls (snd (add_origin e unique_id path origin_address origin_type header port protocol
                     bucket_name file_extensions optimize_for cache_query w)) = calls w @ [c_origin]
        \<and> remote e c_origin = Inr (PList (origin # origins))
      \<longrightarrow> fst (add_origin e unique_id path origin_address origin_type header port protocol
                 bucket_name file_extensions optimize_for cache_query w) = Inr origin)
   \<and> (calls (snd (get_usage_metrics e unique_id start_date end_date days frequency w)) =
          calls w @ [c_usage]
        \<and> remote e c_usage = Inr (PList (usage # usages))
      \<longrightarrow> fst (get_usage_metrics e unique_id start_date end_date days frequency w) = Inr usage)
   \<and> purge_content e unique_id path w =
       (remote e (Call cdn_purge ''createPurge'' [unique_id, path] []),
        w\<lparr>calls := calls w @ [Call cdn_purge ''createPurge'' [unique_id, path] []]\<rparr>)
   \<and> remove_origin e unique_id path w =
       (remote e (Call cdn_path ''deleteOriginPath'' [unique_id, path] []),
        w\<lparr>calls := calls w @ [Call cdn_path ''deleteOriginPath'' [unique_id, path] []]\<rparr>)"
proof (intro conjI impI)
  assume "remote e (Call cdn_configuration ''listDomainMappingByUniqueId'' [unique_id] kw) =
        Inr (PList (cdn # cdns))"
  then show "fst (get_cdn e unique_id kw w) = Inr cdn"
    by (simp add: get_cdn_def invoke_def seq_index_0_Cons)
next
  assume a: "calls (snd (add_origin e unique_id path origin_address origin_type header port protocol
                     bucket_name file_extensions optimize_for cache_query w)) = calls w @ [c_origin]
        \<and> remote e c_origin = Inr (PList (origin # origins))"
  then have "fst (add_origin e unique_id path origin_address origin_type header port protocol
                 bucket_name file_extensions optimize_for cache_query w) =
           (case remote e c_origin of
              Inl err \<Rightarrow> Inl err
            | Inr v \<Rightarrow> getitem v (PInt 0))"
    by (simp add: add_origin_result)
  with a show "fst (add_origin e unique_id path origin_address origin_type header port protocol
                 bucket_name file_extensions optimize_for cache_query w) = Inr origin"
    by (simp add: seq_index_0_Cons)
next
  assume a: "calls (snd (get_usage_metrics e unique_id start_date end_date days frequency w)) =
          calls w @ [c_usage]
        \<and> remote e c_usage = Inr (PList (usage # usages))"
  then have "fst (get_usage_metrics e unique_id start_date end_date days frequency w) =
           (case remote e c_usage of
              Inl err \<Rightarrow> Inl err
            | Inr v \<Rightarrow> getitem v (PInt 0))"
    by (simp add: get_usage_metrics_result)
  with a show "fst (get_usage_metrics e unique_id start_date end_date days frequency w) = Inr usage"
    by (simp add: seq_index_0_Cons)
next
  show "purge_content e unique_id path w =
       (remote e (Call cdn_purge ''createPurge'' [unique_id, path] []),
        w\<lparr>calls := calls w @ [Call cdn_purge ''createPurge'' [unique_id, path] []]\<rparr>)"
    by (simp add: purge_content_def invoke_def)
next
  show "remove_origin e unique_id path w =
       (remote e (Call cdn_path ''deleteOriginPath'' [unique_id, path] []),
        w\<lparr>calls := calls w @ [Call cdn_path ''deleteOriginPath'' [unique_id, path] []]\<rparr>)"
    by (simp add: remove_origin_def invoke_def)
qed

theorem unwrap_first_element_except_purge_and_remove_witness:
  "remote (fixture_env\<lparr>remote := \<lambda>c. Inr (PList [PList (args_of c)])\<rparr>)
      (Call cdn_configuration ''listDomainMappingByUniqueId'' [PInt 9779455] []) =
     Inr (PList [PList [PInt 9779455]])
   \<and> fst (get_cdn (fixture_env\<lparr>remote := \<lambda>c. Inr (PList [PList (args_of c)])\<rparr>)
            (PInt 9779455) [] world0) = Inr (PList [PInt 9779455])
   \<and> calls (snd (add_origin (fixture_env\<lparr>remote := \<lambda>c. Inr (PList [PList (args_of c)])\<rparr>)
                   (PInt 9779455) (PStr ''/example'') (PStr ''10.10.10.1'')
                   None None None None None None None None world0)) =
       calls world0 @ [Call cdn_path ''createOriginPath''
         [PDict [(''uniqueId'', PInt 9779455),
                 (''path'', PStr ''/example''),
                 (''origin'', PStr ''10.10.10.1''),
                 (''originType'', PStr ''HOST_SERVER''),
                 (''httpPort'', PInt 80),
                 (''protocol'', PStr ''HTTP''),
                 (''performanceConfiguration'', PStr ''General web delivery''),
                 (''cacheKeyQueryRule'', PStr ''include all'')]] []]
   \<and> fst (add_origin (fixture_env\<lparr>remote := \<lambda>c. Inr (PList [PList (args_of c)])\<rparr>)
            (PInt 9779455) (PStr ''/example'') (PStr ''10.10.10.1'')
            None None None None None None None None world0) =
       Inr (PList [PDict [(''uniqueId'', PInt 9779455),
                 (''path'', PStr ''/example''),
                 (''origin'', PStr ''10.10.10.1''),
                 (''originType'', PStr ''HOST_SERVER''),
                 (''httpPort'', PInt 80),
                 (''protocol'', PStr ''HTTP''),
                 (''performanceConfiguration'', PStr ''General web delivery''),
                 (''cacheKeyQueryRule'', PStr ''include all'')]])
   \<and> calls (snd (get_usage_metrics (fixture_env\<lparr>remote := \<lambda>c. Inr (PList [PList (args_of c)])\<rparr>)
                   (PInt 9779455) None None None None world0)) =
       calls world0 @ [Call cdn_metrics ''getMappingUsageMetrics''
         [PInt 9779455, PInt 1609545600, PInt 1612137600, PStr ''aggregate''] []]
   \<and> fst (get_usage_metrics (fixture_env\<lparr>remote := \<lambda>c. Inr (PList [PList (args_of c)])\<rparr>)
            (PInt 9779455) None None None None world0) =
       Inr (PList [PInt 9779455, PInt 1609545600, PInt 1612137600, PStr ''aggregate''])
   \<and> fst (purge_content fixture_env (PInt 9779455) (PStr ''/article/file.txt'') world0) =
        Inr (PList [purge_record])
   \<and> fst (remove_origin fixture_env (PInt 9779455) (PStr ''/example'') world0) = Inr (PStr ''deleted'')"
proof -
  define echo where "echo = fixture_env\<lparr>remote := \<lambda>c. Inr (PList [PList (args_of c)])\<rparr>"
  have r: "remote echo c = Inr (PList [PList (args_of c)])" for c
    by (simp add: echo_def)
  have p: "remote fixture_env (Call cdn_purge ''createPurge'' [PInt 9779455, PStr ''/article/file.txt''] []) =
        Inr (PList [purge_record])"
    "remote fixture_env (Call cdn_path ''deleteOriginPath'' [PInt 9779455, PStr ''/example''] []) =
        Inr (PStr ''deleted'')"
    by (simp_all add: fixture_env_def)
  have n: "\<not> (arg_or None (PStr ''HOST_SERVER'') = PStr ''OBJECT_STORAGE'' \<and> \<not> truthy (arg_or None PNone))"
    "\<not> truthy (arg_or None PNone)"
    by (simp_all add: arg_or_def)
  have a: "calls (snd (add_origin echo (PInt 9779455) (PStr ''/example'') (PStr ''10.10.10.1'')
                   None None None None None None None None world0)) =
       calls world0 @ [Call cdn_path ''createOriginPath''
         [PDict [(''uniqueId'', PInt 9779455),
                 (''path'', PStr ''/example''),
                 (''origin'', PStr ''10.10.10.1''),
                 (''originType'', PStr ''HOST_SERVER''),
                 (''httpPort'', PInt 80),
                 (''protocol'', PStr ''HTTP''),
                 (''performanceConfiguration'', PStr ''General web delivery''),
                 (''cacheKeyQueryRule'', PStr ''include all'')]] []]"
    unfolding add_origin_closed [OF n(1)] Let_def snd_case_sum_pair
    by (simp add: arg_or_def)
  have c: "clock echo (ticks world0) = 1612137600000000"
    "clock echo (Suc (ticks world0)) = 1612137600000001"
    by (simp_all add: echo_def fixture_env_def world0_def)
  have ts: "timestamp echo (1612137600000000 - 30 * microseconds_per_day) = 1609545600"
    "timestamp echo 1612137600000001 = 1612137600"
    by (simp_all add: echo_def fixture_env_def microseconds_per_day_def)
  have g: "calls (snd (get_usage_metrics echo (PInt 9779455) None None None None world0)) =
       calls world0 @ [Call cdn_metrics ''getMappingUsageMetrics''
         [PInt 9779455, PInt 1609545600, PInt 1612137600, PStr ''aggregate''] []]"
    unfolding get_usage_metrics_default [OF n(2) n(2)] Let_def snd_case_sum_pair
    by (simp add: arg_or_def c ts)
  note u = unwrap_first_element_except_purge_and_remove [where e = echo and
        unique_id = "PInt 9779455" and kw = "[]" and w = world0 and path = "PStr ''/example''" and
        origin_address = "PStr ''10.10.10.1''" and origin_type = None and header = None and
        port = None and protocol = None and bucket_name = None and file_extensions = None and
        optimize_for = None and cache_query = None and start_date = None and end_date = None and
        days = None and frequency = None and cdn = "PList [PInt 9779455]" and cdns = "[]" and
        c_origin = "Call cdn_path ''createOriginPath''
         [PDict [(''uniqueId'', PInt 9779455),
                 (''path'', PStr ''/example''),
                 (''origin'', PStr ''10.10.10.1''),
                 (''originType'', PStr ''HOST_SERVER''),
                 (''httpPort'', PInt 80),
                 (''protocol'', PStr ''HTTP''),
                 (''performanceConfiguration'', PStr ''General web delivery''),
                 (''cacheKeyQueryRule'', PStr ''include all'')]] []" and
        origin = "PList [PDict [(''uniqueId'', PInt 9779455),
                 (''path'', PStr ''/example''),
                 (''origin'', PStr ''10.10.10.1''),
                 (''originType'', PStr ''HOST_SERVER''),
                 (''httpPort'', PInt 80),
                 (''protocol'', PStr ''HTTP''),
                 (''performanceConfiguration'', PStr ''General web delivery''),
                 (''cacheKeyQueryRule'', PStr ''include all'')]]" and origins = "[]" and
        c_usage = "Call cdn_metrics ''getMappingUsageMetrics''
         [PInt 9779455, PInt 1609545600, PInt 1612137600, PStr ''aggregate''] []" and
        usage = "PList [PInt 9779455, PInt 1609545600, PInt 1612137600, PStr ''aggregate'']" and
        usages = "[]"]
  note v = unwrap_first_element_except_purge_and_remove [where e = fixture_env and
        unique_id = "PInt 9779455" and w = world0 and path = "PStr ''/article/file.txt''",
        THEN conjunct2, THEN conjunct2, THEN conjunct2, THEN conjunct1]
  note v' = unwrap_first_element_except_purge_and_remove [where e = fixture_env and
        unique_id = "PInt 9779455" and w = world0 and path = "PStr ''/example''",
        THEN conjunct2, THEN conjunct2, THEN conjunct2, THEN conjunct2]
  have u1: "fst (get_cdn echo (PInt 9779455) [] world0) = Inr (PList [PInt 9779455])"
    using u [THEN conjunct1] by (simp add: r)
  have u2: "fst (add_origin echo (PInt 9779455) (PStr ''/example'') (PStr ''10.10.10.1'')
            None None None None None None None None world0) =
       Inr (PList [PDict [(''uniqueId'', PInt 9779455),
                 (''path'', PStr ''/example''),
                 (''origin'', PStr ''10.10.10.1''),
                 (''originType'', PStr ''HOST_SERVER''),
                 (''httpPort'', PInt 80),
                 (''protocol'', PStr ''HTTP''),
                 (''performanceConfiguration'', PStr ''General web delivery''),
                 (''cacheKeyQueryRule'', PStr ''include all'')]])"
    using u [THEN conjunct2, THEN conjunct1] a by (simp add: r)
  have u3: "fst (get_usage_metrics echo (PInt 9779455) None None None None world0) =
       Inr (PList [PInt 9779455, PInt 1609545600, PInt 1612137600, PStr ''aggregate''])"
    using u [THEN conjunct2, THEN conjunct2, THEN conjunct1] g by (simp add: r)
  have v1: "fst (purge_content fixture_env (PInt 9779455) (PStr ''/article/file.txt'') world0) =
        Inr (PList [purge_record])"
    using v by (simp add: p)
  have v2: "fst (remove_origin fixture_env (PInt 9779455) (PStr ''/example'') world0) = Inr (PStr ''deleted'')"
    using v' by (simp add: p)
  from r [of "Call cdn_configuration ''listDomainMappingByUniqueId'' [PInt 9779455] []"] u1 a u2 g u3 v1 v2
  show ?thesis
    unfolding echo_def by simp
qed

text \<open>
  C2. The purge command run against a client that answers \<^verbatim>\<open>createPurge\<close> with a
  collection of exactly one purge record: \<^verbatim>\<open>purge_content\<close> hands the collection back
  as it is, the command subscripts it with \<^verbatim>\<open>'date'\<close>, a string, and a list rejects
  that with \<^verbatim>\<open>TypeError\<close>. No row is rendered and nothing is written.
\<close>

theorem cli_purge_on_one_record_collection:
  "remote fixture_env (Call cdn_purge ''createPurge'' [PStr ''9779455'', PStr ''/article/file.txt''] []) =
     Inr (PList [purge_record])
   \<and> cli fixture_env ''9779455'' ''/article/file.txt'' world0 =
       (Inl TypeError,
        world0\<lparr>calls := [Call cdn_purge ''createPurge''
                            [PStr ''9779455'', PStr ''/article/file.txt''] []]\<rparr>)
   \<and> out (snd (cli fixture_env ''9779455'' ''/article/file.txt'' world0)) = []"
  by (simp add: cli_def purge_content_def invoke_def fixture_env_def world0_def)

text \<open>The same for every collection, and what the command does when the client answers
  with a single record instead: the one row of that record's four fields.\<close>

lemma cli_on_collection:
  assumes "remote e (Call cdn_purge ''createPurge'' [PStr unique_id, PStr path] []) = Inr (PList records)"
  shows "fst (cli e unique_id path w) = Inl TypeError"
    and "out (snd (cli e unique_id path w)) = out w"
  using assms by (simp_all add: cli_def purge_content_def invoke_def)

lemma cli_on_record:
  assumes "remote e (Call cdn_purge ''createPurge'' [PStr unique_id, PStr path] []) = Inr (PDict d)"
    and "map_of d ''date'' = Some c1" and "map_of d ''path'' = Some c2"
    and "map_of d ''saved'' = Some c3" and "map_of d ''status'' = Some c4"
  shows "fst (cli e unique_id path w) = Inr ()"
    and "out (snd (cli e unique_id path w)) =
           out w @ [\<lparr>columns = [''Date'', ''Path'', ''Saved'', ''Status''], rows = [[c1, c2, c3, c4]]\<rparr>]"
  using assms by (simp_all add: cli_def purge_content_def invoke_def Let_def Table_def add_row_def fout_def)

text \<open>
  C6. Whenever \<^verbatim>\<open>add_origin\<close> submits a record (that is, unless the origin type is
  \<^verbatim>\<open>'OBJECT_STORAGE'\<close> with a falsy bucket name, where it raises and submits nothing),
  the record has the field \<^verbatim>\<open>fileExtension\<close> exactly when the origin type is
  \<^verbatim>\<open>'OBJECT_STORAGE'\<close> and \<^verbatim>\<open>file_extensions\<close> is truthy, and then with the value passed;
  for any other origin type it has neither \<^verbatim>\<open>bucketName\<close> nor \<^verbatim>\<open>fileExtension\<close>,
  whatever was passed for them.
\<close>

theorem add_origin_file_extension_only_for_object_storage:
  assumes "\<not> (arg_or origin_type (PStr ''HOST_SERVER'') = PStr ''OBJECT_STORAGE''
              \<and> \<not> truthy (arg_or bucket_name PNone))"
  shows "\<exists>d. calls (snd (add_origin e unique_id path origin_address origin_type header port protocol
                          bucket_name file_extensions optimize_for cache_query w)) =
               calls w @ [Call cdn_path ''createOriginPath'' [PDict d] []]
           \<and> map_of d ''fileExtension'' =
               (if arg_or origin_type (PStr ''HOST_SERVER'') = PStr ''OBJECT_STORAGE''
                   \<and> truthy (arg_or file_extensions PNone)
                then Some (arg_or file_extensions PNone) else None)
           \<and> (arg_or origin_type (PStr ''HOST_SERVER'') \<noteq> PStr ''OBJECT_STORAGE'' \<longrightarrow>
                map_of d ''bucketName'' = None \<and> map_of d ''fileExtension'' = None)"
proof -
  from add_origin_submits [OF assms, of e unique_id path origin_address header port protocol
      file_extensions optimize_for cache_query w]
  obtain d where d: "calls (snd (add_origin e unique_id path origin_address origin_type header port protocol
                          bucket_name file_extensions optimize_for cache_query w)) =
               calls w @ [Call cdn_path ''createOriginPath'' [PDict d] []]"
    "map_of d ''bucketName'' =
       (if arg_or origin_type (PStr ''HOST_SERVER'') = PStr ''OBJECT_STORAGE''
        then Some (arg_or bucket_name PNone) else None)"
    "map_of d ''fileExtension'' =
       (if arg_or origin_type (PStr ''HOST_SERVER'') = PStr ''OBJECT_STORAGE''
           \<and> truthy (arg_or file_extensions PNone)
        then Some (arg_or file_extensions PNone) else None)"
    by blast
  show ?thesis
  proof (intro exI conjI impI)
    show "calls (snd (add_origin e unique_id path origin_address origin_type header port protocol
                          bucket_name file_extensions optimize_for cache_query w)) =
               calls w @ [Call cdn_path ''createOriginPath'' [PDict d] []]"
      by (rule d(1))
    show "map_of d ''fileExtension'' =
       (if arg_or origin_type (PStr ''HOST_SERVER'') = PStr ''OBJECT_STORAGE''
           \<and> truthy (arg_or file_extensions PNone)
        then Some (arg_or file_extensions PNone) else None)"
      by (rule d(3))
  next
    assume "arg_or origin_type (PStr ''HOST_SERVER'') \<noteq> PStr ''OBJECT_STORAGE''"
    then show "map_of d ''bucketName'' = None" and "map_of d ''fileExtension'' = None"
      by (simp_all add: d(2) d(3))
  qed
qed

theorem add_origin_file_extension_only_for_object_storage_witness:
  "\<not> (arg_or (Some (PStr ''OBJECT_STORAGE'')) (PStr ''HOST_SERVER'') = PStr ''OBJECT_STORAGE''
        \<and> \<not> truthy (arg_or (Some (PStr ''bucket'')) PNone))
   \<and> (\<exists>d. calls (snd (add_origin fixture_env (PInt 9779455) (PStr ''/example'') (PStr ''10.10.10.1'')
                 (Some (PStr ''OBJECT_STORAGE'')) None None None (Some (PStr ''bucket''))
                 (Some (PStr ''jpg'')) None None world0)) =
               [Call cdn_path ''createOriginPath'' [PDict d] []]
           \<and> map_of d ''fileExtension'' = Some (PStr ''jpg''))
   \<and> \<not> (arg_or (Some (PStr ''HOST_SERVER'')) (PStr ''HOST_SERVER'') = PStr ''OBJECT_STORAGE''
        \<and> \<not> truthy (arg_or (Some (PStr ''bucket'')) PNone))
   \<and> (\<exists>d. calls (snd (add_origin fixture_env (PInt 9779455) (PStr ''/example'') (PStr ''10.10.10.1'')
                 (Some (PStr ''HOST_SERVER'')) None None None (Some (PStr ''bucket''))
                 (Some (PStr ''jpg'')) None None world0)) =
               [Call cdn_path ''createOriginPath'' [PDict d] []]
           \<and> map_of d ''bucketName'' = None \<and> map_of d ''fileExtension'' = None)"
proof -
  have h1: "\<not> (arg_or (Some (PStr ''OBJECT_STORAGE'')) (PStr ''HOST_SERVER'') = PStr ''OBJECT_STORAGE''
        \<and> \<not> truthy (arg_or (Some (PStr ''bucket'')) PNone))"
    by (simp add: arg_or_def)
  have h2: "\<not> (arg_or (Some (PStr ''HOST_SERVER'')) (PStr ''HOST_SERVER'') = PStr ''OBJECT_STORAGE''
        \<and> \<not> truthy (arg_or (Some (PStr ''bucket'')) PNone))"
    by (simp add: arg_or_def)
  have a: "arg_or (Some (PStr ''OBJECT_STORAGE'')) (PStr ''HOST_SERVER'') = PStr ''OBJECT_STORAGE''"
    "arg_or (Some (PStr ''HOST_SERVER'')) (PStr ''HOST_SERVER'') \<noteq> PStr ''OBJECT_STORAGE''"
    "arg_or (Some (PStr ''jpg'')) PNone = PStr ''jpg''" "truthy (PStr ''jpg'')"
    "calls world0 = []"
    by (simp_all add: arg_or_def world0_def)
  from add_origin_file_extension_only_for_object_storage [OF h1, where e = fixture_env and
      unique_id = "PInt 9779455" and path = "PStr ''/example''" and origin_address = "PStr ''10.10.10.1''"
      and header = None and port = None and protocol = None and file_extensions = "Some (PStr ''jpg'')"
      and optimize_for = None and cache_query = None and w = world0]
  have c1: "\<exists>d. calls (snd (add_origin fixture_env (PInt 9779455) (PStr ''/example'') (PStr ''10.10.10.1'')
                 (Some (PStr ''OBJECT_STORAGE'')) None None None (Some (PStr ''bucket''))
                 (Some (PStr ''jpg'')) None None world0)) =
               [Call cdn_path ''createOriginPath'' [PDict d] []]
           \<and> map_of d ''fileExtension'' = Some (PStr ''jpg'')"
    unfolding a by simp
  from add_origin_file_extension_only_for_object_storage [OF h2, where e = fixture_env and
      unique_id = "PInt 9779455" and path = "PStr ''/example''" and origin_address = "PStr ''10.10.10.1''"
      and header = None and port = None and protocol = None and file_extensions = "Some (PStr ''jpg'')"
      and optimize_for = None and cache_query = None and w = world0]
  have c2: "\<exists>d. calls (snd (add_origin fixture_env (PInt 9779455) (PStr ''/example'') (PStr ''10.10.10.1'')
                 (Some (PStr ''HOST_SERVER'')) None None None (Some (PStr ''bucket''))
                 (Some (PStr ''jpg'')) None None world0)) =
               [Call cdn_path ''createOriginPath'' [PDict d] []]
           \<and> map_of d ''bucketName'' = None \<and> map_of d ''fileExtension'' = None"
    using a(2) unfolding a(5) by auto
  from h1 c1 h2 c2 show ?thesis
    by blast
qed

text \<open>
  C9. With \<^verbatim>\<open>origin_type\<close>, \<^verbatim>\<open>port\<close>, \<^verbatim>\<open>protocol\<close>, \<^verbatim>\<open>optimize_for\<close> and
  \<^verbatim>\<open>cache_query\<close> omitted, \<^verbatim>\<open>add_origin\<close> always submits a record, and the record has
  \<^verbatim>\<open>originType\<close> \<^verbatim>\<open>'HOST_SERVER'\<close>, \<^verbatim>\<open>httpPort\<close> 80, \<^verbatim>\<open>protocol\<close> \<^verbatim>\<open>'HTTP'\<close>,
  \<^verbatim>\<open>performanceConfiguration\<close> \<^verbatim>\<open>'General web delivery'\<close> and \<^verbatim>\<open>cacheKeyQueryRule\<close>
  \<^verbatim>\<open>'include all'\<close>. Whatever the arguments, a submitted record has the field
  \<^verbatim>\<open>header\<close> exactly when the \<^verbatim>\<open>header\<close> argument is truthy, with that value;
  otherwise the key is not in the record at all.
\<close>

theorem add_origin_defaults_and_header:
  "(\<exists>d. calls (snd (add_origin e unique_id path origin_address None header None None
                       bucket_name file_extensions None None w)) =
            calls w @ [Call cdn_path ''createOriginPath'' [PDict d] []]
        \<and> map_of d ''originType'' = Some (PStr ''HOST_SERVER'')
        \<and> map_of d ''httpPort'' = Some (PInt 80)
        \<and> map_of d ''protocol'' = Some (PStr ''HTTP'')
        \<and> map_of d ''performanceConfiguration'' = Some (PStr ''General web delivery'')
        \<and> map_of d ''cacheKeyQueryRule'' = Some (PStr ''include all''))
   \<and> (\<not> (arg_or origin_type (PStr ''HOST_SERVER'') = PStr ''OBJECT_STORAGE''
           \<and> \<not> truthy (arg_or bucket_name PNone)) \<longrightarrow>
       (\<exists>d. calls (snd (add_origin e unique_id path origin_address origin_type header port protocol
                          bucket_name file_extensions optimize_for cache_query w)) =
               calls w @ [Call cdn_path ''createOriginPath'' [PDict d] []]
           \<and> map_of d ''header'' =
               (if truthy (arg_or header PNone) then Some (arg_or header PNone) else None)))"
proof (intro conjI impI)
  have n: "\<not> (arg_or None (PStr ''HOST_SERVER'') = PStr ''OBJECT_STORAGE''
              \<and> \<not> truthy (arg_or bucket_name PNone))"
    by (simp add: arg_or_def)
  have a: "arg_or None v = v" for v :: pyval
    by (simp add: arg_or_def)
  from add_origin_submits [OF n, of e unique_id path origin_address header None None
      file_extensions None None w]
  show "\<exists>d. calls (snd (add_origin e unique_id path origin_address None header None None
                       bucket_name file_extensions None None w)) =
            calls w @ [Call cdn_path ''createOriginPath'' [PDict d] []]
        \<and> map_of d ''originType'' = Some (PStr ''HOST_SERVER'')
        \<and> map_of d ''httpPort'' = Some (PInt 80)
        \<and> map_of d ''protocol'' = Some (PStr ''HTTP'')
        \<and> map_of d ''performanceConfiguration'' = Some (PStr ''General web delivery'')
        \<and> map_of d ''cacheKeyQueryRule'' = Some (PStr ''include all'')"
    unfolding a by blast
next
  assume h: "\<not> (arg_or origin_type (PStr ''HOST_SERVER'') = PStr ''OBJECT_STORAGE''
           \<and> \<not> truthy (arg_or bucket_name PNone))"
  from add_origin_submits [OF h, of e unique_id path origin_address header port protocol
      file_extensions optimize_for cache_query w]
  show "\<exists>d. calls (snd (add_origin e unique_id path origin_address origin_type header port protocol
                          bucket_name file_extensions optimize_for cache_query w)) =
               calls w @ [Call cdn_path ''createOriginPath'' [PDict d] []]
           \<and> map_of d ''header'' =
               (if truthy (arg_or header PNone) then Some (arg_or header PNone) else None)"
    by blast
qed

text \<open>One call in full: the record it submits and what it returns.\<close>

lemma add_origin_example:
  "add_origin fixture_env (PInt 9779455) (PStr ''/example'') (PStr ''10.10.10.1'')
     None (Some (PStr ''test.example.com'')) None None None None None None world0 =
   (Inr (PDict [(''uniqueId'', PStr ''9779455'')]),
    world0\<lparr>calls := [Call cdn_path ''createOriginPath''
      [PDict [(''uniqueId'', PInt 9779455),
              (''path'', PStr ''/example''),
              (''origin'', PStr ''10.10.10.1''),
              (''originType'', PStr ''HOST_SERVER''),
              (''httpPort'', PInt 80),
              (''protocol'', PStr ''HTTP''),
              (''performanceConfiguration'', PStr ''General web delivery''),
              (''cacheKeyQueryRule'', PStr ''include all''),
              (''header'', PStr ''test.example.com'')]] []]\<rparr>)"
  by (simp add: add_origin_def arg_or_def invoke_def fixture_env_def world0_def seq_index_0_Cons)

theorem add_origin_defaults_and_header_witness:
  "\<not> (arg_or None (PStr ''HOST_SERVER'') = PStr ''OBJECT_STORAGE'' \<and> \<not> truthy (arg_or None PNone))
   \<and> (\<exists>d. calls (snd (add_origin fixture_env (PInt 9779455) (PStr ''/example'') (PStr ''10.10.10.1'')
                 None (Some (PStr ''test.example.com'')) None None None None None None world0)) =
               [Call cdn_path ''createOriginPath'' [PDict d] []]
           \<and> map_of d ''header'' = Some (PStr ''test.example.com''))
   \<and> (\<exists>d. calls (snd (add_origin fixture_env (PInt 9779455) (PStr ''/example'') (PStr ''10.10.10.1'')
                 None (Some (PStr '''')) None None None None None None world0)) =
               [Call cdn_path ''createOriginPath'' [PDict d] []]
           \<and> map_of d ''header'' = None)"
proof -
  have h: "\<not> (arg_or None (PStr ''HOST_SERVER'') = PStr ''OBJECT_STORAGE'' \<and> \<not> truthy (arg_or None PNone))"
    by (simp add: arg_or_def)
  have a: "arg_or (Some (PStr ''test.example.com'')) PNone = PStr ''test.example.com''"
    "arg_or (Some (PStr '''')) PNone = PStr ''''" "calls world0 = []"
    by (simp_all add: arg_or_def world0_def)
  from add_origin_defaults_and_header [where e = fixture_env and
      unique_id = "PInt 9779455" and path = "PStr ''/example''" and origin_address = "PStr ''10.10.10.1''"
      and origin_type = None and header = "Some (PStr ''test.example.com'')" and port = None and
      protocol = None and bucket_name = None and file_extensions = None
      and optimize_for = None and cache_query = None and w = world0, THEN conjunct2, rule_format, OF h]
  have c1: "\<exists>d. calls (snd (add_origin fixture_env (PInt 9779455) (PStr ''/example'') (PStr ''10.10.10.1'')
                 None (Some (PStr ''test.example.com'')) None None None None None None world0)) =
               [Call cdn_path ''createOriginPath'' [PDict d] []]
           \<and> map_of d ''header'' = Some (PStr ''test.example.com'')"
    unfolding a by simp
  from add_origin_defaults_and_header [where e = fixture_env and
      unique_id = "PInt 9779455" and path = "PStr ''/example''" and origin_address = "PStr ''10.10.10.1''"
      and origin_type = None and header = "Some (PStr '''')" and port = None and
      protocol = None and bucket_name = None and file_extensions = None
      and optimize_for = None and cache_query = None and w = world0, THEN conjunct2, rule_format, OF h]
  have c2: "\<exists>d. calls (snd (add_origin fixture_env (PInt 9779455) (PStr ''/example'') (PStr ''10.10.10.1'')
                 None (Some (PStr '''')) None None None None None None world0)) =
               [Call cdn_path ''createOriginPath'' [PDict d] []]
           \<and> map_of d ''header'' = None"
    unfolding a by simp
  from h c1 c2 show ?thesis
    by blast
qed

end
